theory Spec2Isabelle
  imports Complex_Main
begin

section \<open>Shared data\<close>

text \<open>
  The errors the modelled Python code can raise: a missing dictionary key, a division
  by zero and the \<^verbatim>\<open>ValueError\<close> of \<^verbatim>\<open>deque(maxlen=...)\<close> on a negative bound.
\<close>

datatype py_error = KeyError | ZeroDivisionError | ValueError

definition then_do :: "py_error + 'a \<Rightarrow> ('a \<Rightarrow> py_error + 'b) \<Rightarrow> py_error + 'b" where
  "then_do m f = (case m of Inl e \<Rightarrow> Inl e | Inr x \<Rightarrow> f x)"

text \<open>\<^verbatim>\<open>d.get(key, default)\<close> on a dictionary.\<close>

definition dict_get :: "('k \<rightharpoonup> 'v) \<Rightarrow> 'k \<Rightarrow> 'v \<Rightarrow> 'v" where
  "dict_get d key dflt = (case d key of None \<Rightarrow> dflt | Some v \<Rightarrow> v)"

text \<open>
  The per-frame \<^verbatim>\<open>results\<close> dictionary built in \<^verbatim>\<open>main\<close> (src/main.py), with the
  seven keys it always holds. The gaze direction is the string the eye tracker returns;
  \<^verbatim>\<open>eye_ratio\<close> is a float that none of the modelled functions reads.
\<close>

record results =
  face_present :: bool
  gaze_direction :: string
  eye_ratio :: real
  mouth_moving :: bool
  multiple_faces :: bool
  objects_detected :: bool
  timestamp :: string

section \<open>Risk fusion: src/utils/cheating\_probability.py\<close>

text \<open>
  \<^verbatim>\<open>collections.deque(maxlen=n)\<close>: \<^verbatim>\<open>append\<close> adds on the right and, when the
  length then exceeds \<^verbatim>\<open>maxlen\<close>, removes the leftmost entry.
\<close>

record deque =
  items :: "int list"
  maxlen :: nat

definition deque_append :: "deque \<Rightarrow> int \<Rightarrow> deque" where
  "deque_append d x =
     (let xs = items d @ [x]
      in d\<lparr>items := (if maxlen d < length xs then tl xs else xs)\<rparr>)"

record calculator =
  window_size :: int
  history :: deque
  weights :: "string \<rightharpoonup> int"

definition default_weights :: "string \<rightharpoonup> int" where
  "default_weights =
     [''FACE_DISAPPEARED'' \<mapsto> 40,
      ''MULTIPLE_FACES'' \<mapsto> 50,
      ''OBJECT_DETECTED'' \<mapsto> 45,
      ''MOUTH_MOVING'' \<mapsto> 20,
      ''GAZE_AWAY'' \<mapsto> 15]"

text \<open>
  \<^verbatim>\<open>__init__(self, window_size=30)\<close>. A negative \<^verbatim>\<open>maxlen\<close> makes \<^verbatim>\<open>deque\<close> raise
  \<^verbatim>\<open>ValueError\<close>, so no calculator is constructed.
\<close>

definition calculator_init :: "int \<Rightarrow> py_error + calculator" where
  "calculator_init ws =
     (if ws < 0 then Inl ValueError
      else Inr \<lparr>window_size = ws,
                history = \<lparr>items = [], maxlen = nat ws\<rparr>,
                weights = default_weights\<rparr>)"

text \<open>
  One \<^verbatim>\<open>if cond: score += self.weights[key]; reasons.append(reason)\<close> block of
  \<^verbatim>\<open>compute_frame_score\<close>, on the pair (score, reasons) accumulated so far.
\<close>

definition add_condition ::
  "calculator \<Rightarrow> bool \<Rightarrow> string \<Rightarrow> string \<Rightarrow> int \<times> string list \<Rightarrow> py_error + int \<times> string list"
where
  "add_condition self cond key reason acc =
     (if cond then
        (case weights self key of
           None \<Rightarrow> Inl KeyError
         | Some w \<Rightarrow> Inr (fst acc + w, snd acc @ [reason]))
      else Inr acc)"

definition compute_frame_score :: "calculator \<Rightarrow> results \<Rightarrow> py_error + int \<times> string list" where
  "compute_frame_score self r =
     then_do (add_condition self (\<not> face_present r)
                ''FACE_DISAPPEARED'' ''Face not visible'' (0, [])) (\<lambda>a1.
     then_do (add_condition self (multiple_faces r)
                ''MULTIPLE_FACES'' ''Multiple faces detected'' a1) (\<lambda>a2.
     then_do (add_condition self (objects_detected r)
                ''OBJECT_DETECTED'' ''Suspicious object detected'' a2) (\<lambda>a3.
     then_do (add_condition self (mouth_moving r)
                ''MOUTH_MOVING'' ''Mouth movement detected'' a3) (\<lambda>a4.
     then_do (add_condition self (gaze_direction r \<noteq> ''Center'')
                ''GAZE_AWAY'' ''Looking away from screen'' a4) (\<lambda>a5.
     Inr (min (fst a5) 100, snd a5))))))"

text \<open>
  \<^verbatim>\<open>int(a / b)\<close> on two Python ints: true division, then truncation toward zero.
  The quotient is taken exactly here; the double that Python computes is the correctly
  rounded quotient, and truncating it gives the same integer as long as the quotient is
  below \<open>2 ^ 52\<close> and the divisor below \<open>2 ^ 46\<close> for quotients up to 100, which covers
  every window that fits in memory.
\<close>

definition int_truediv :: "int \<Rightarrow> int \<Rightarrow> py_error + int" where
  "int_truediv a b =
     (if b = 0 then Inl ZeroDivisionError
      else Inr (sgn a * sgn b * (\<bar>a\<bar> div \<bar>b\<bar>)))"

text \<open>
  \<^verbatim>\<open>update(self, results)\<close>: the result is the returned pair together with the
  calculator after the call.
\<close>

definition update :: "calculator \<Rightarrow> results \<Rightarrow> py_error + (int \<times> string list) \<times> calculator" where
  "update self r =
     then_do (compute_frame_score self r) (\<lambda>(frame_score, reasons).
       let self' = self\<lparr>history := deque_append (history self) frame_score\<rparr>
       in then_do (int_truediv (sum_list (items (history self')))
                     (int (length (items (history self'))))) (\<lambda>avg_score.
          Inr ((avg_score, reasons), self')))"

text \<open>
  The frame loop of \<^verbatim>\<open>main\<close> as far as the calculator is concerned: one \<^verbatim>\<open>update\<close>
  per frame, collecting what each call returned. An exception ends the run.
\<close>

fun run_updates ::
  "calculator \<Rightarrow> results list \<Rightarrow> py_error + (int \<times> string list) list \<times> calculator"
where
  "run_updates self [] = Inr ([], self)"
| "run_updates self (r # rs) =
     then_do (update self r) (\<lambda>(out, self').
     then_do (run_updates self' rs) (\<lambda>(outs, self'').
       Inr (out # outs, self'')))"

text \<open>
  The states a calculator goes through: constructed with a positive window size, then
  any number of \<^verbatim>\<open>update\<close> calls that returned.
\<close>

inductive reachable :: "calculator \<Rightarrow> bool" where
  init: "calculator_init ws = Inr self \<Longrightarrow> 0 < ws \<Longrightarrow> reachable self"
| step: "reachable self \<Longrightarrow> update self r = Inr (out, self') \<Longrightarrow> reachable self'"

text \<open>
  What holds of every such state: the window bound is the positive window size, the
  window is not longer than that, the weights are the constructor's, and every stored
  score is a percentage.
\<close>

definition calculator_inv :: "calculator \<Rightarrow> bool" where
  "calculator_inv self \<longleftrightarrow>
     0 < window_size self \<and>
     maxlen (history self) = nat (window_size self) \<and>
     length (items (history self)) \<le> maxlen (history self) \<and>
     weights self = default_weights \<and>
     (\<forall>x \<in> set (items (history self)). 0 \<le> x \<and> x \<le> 100)"

text \<open>Truncation of a real number toward zero, as \<^verbatim>\<open>int(x)\<close> does on a float.\<close>

definition trunc :: "real \<Rightarrow> int" where
  "trunc x = (if 0 \<le> x then \<lfloor>x\<rfloor> else \<lceil>x\<rceil>)"

section \<open>Violation classification: the frame loop of src/main.py\<close>

text \<open>
  The \<^verbatim>\<open>if\<close>/\<^verbatim>\<open>elif\<close> chain that sets \<^verbatim>\<open>violation_type\<close> in \<^verbatim>\<open>main\<close>;
  \<^verbatim>\<open>None\<close> when no branch is taken.
\<close>

definition violation_type :: "results \<Rightarrow> string option" where
  "violation_type r =
     (if \<not> face_present r then Some ''FACE_DISAPPEARED''
      else if multiple_faces r then Some ''MULTIPLE_FACES''
      else if objects_detected r then Some ''OBJECT_DETECTED''
      else if mouth_moving r then Some ''MOUTH_MOVING''
      else None)"

text \<open>
  The specification's reading of the classifier, for comparison with the code: each of
  the four labels has an underlying condition, the labels are ranked, and the result is
  the highest-ranked label whose condition holds.
\<close>

definition precedence :: "string list" where
  "precedence = [''FACE_DISAPPEARED'', ''MULTIPLE_FACES'', ''OBJECT_DETECTED'', ''MOUTH_MOVING'']"

definition condition_holds :: "results \<Rightarrow> string \<Rightarrow> bool" where
  "condition_holds r t =
     (t = ''FACE_DISAPPEARED'' \<and> \<not> face_present r \<or>
      t = ''MULTIPLE_FACES'' \<and> multiple_faces r \<or>
      t = ''OBJECT_DETECTED'' \<and> objects_detected r \<or>
      t = ''MOUTH_MOVING'' \<and> mouth_moving r)"

definition spec_classify :: "results \<Rightarrow> string option" where
  "spec_classify r = find (condition_holds r) precedence"

section \<open>Alert dispatch: src/utils/alert\_system.py\<close>

text \<open>
  Clock readings (\<^verbatim>\<open>time.time()\<close>) and the cooldown are real numbers here: the
  rounding of the double subtraction in \<^verbatim>\<open>_can_alert\<close> is not modelled.
\<close>

record alert_system =
  alert_cooldown :: real
  last_alert_time :: "string \<rightharpoonup> real"
  audio_enabled :: bool
  alerts :: "string \<rightharpoonup> string"

definition alert_messages :: "string \<rightharpoonup> string" where
  "alert_messages =
     [''FACE_DISAPPEARED'' \<mapsto> ''Please look at the screen'',
      ''FACE_REAPPEARED'' \<mapsto> ''Thank you for looking at the screen'',
      ''MULTIPLE_FACES'' \<mapsto> ''We detected multiple people'',
      ''OBJECT_DETECTED'' \<mapsto> ''Unauthorized object detected'',
      ''GAZE_AWAY'' \<mapsto> ''Please focus on your screen'',
      ''MOUTH_MOVING'' \<mapsto> ''Please maintain silence during exam'',
      ''SPEECH_VIOLATION'' \<mapsto> ''Speaking during exam is not allowed'',
      ''VOICE_DETECTED'' \<mapsto> ''We detected voice. Please maintain silence during the exam'']"

text \<open>
  \<^verbatim>\<open>__init__(self, config)\<close>. The two things it takes from outside are parameters:
  the configured cooldown \<^verbatim>\<open>config['logging']['alert_cooldown']\<close> and whether
  \<^verbatim>\<open>pygame.mixer.init()\<close> returned (\<open>True\<close>) or raised (\<open>False\<close>).
\<close>

definition alert_system_init :: "real \<Rightarrow> bool \<Rightarrow> alert_system" where
  "alert_system_init cooldown mixer_init_ok =
     \<lparr>alert_cooldown = cooldown,
      last_alert_time = Map.empty,
      audio_enabled = mixer_init_ok,
      alerts = alert_messages\<rparr>"

text \<open>\<^verbatim>\<open>_can_alert\<close>, with the clock reading \<^verbatim>\<open>current_time\<close> as an argument.\<close>

definition can_alert :: "alert_system \<Rightarrow> real \<Rightarrow> string \<Rightarrow> bool" where
  "can_alert self current_time alert_type =
     (let last_time = dict_get (last_alert_time self) alert_type 0
      in current_time - last_time \<ge> alert_cooldown self)"

text \<open>
  \<^verbatim>\<open>speak_alert\<close> reads the clock twice: once inside \<^verbatim>\<open>_can_alert\<close> (\<open>t_check\<close>) and
  once when it stores \<^verbatim>\<open>last_alert_time[alert_type]\<close> (\<open>t_set\<close>). It returns the
  dispatcher after the call and the thread it started, if any: \<open>Some alert_type\<close> stands
  for the daemon thread running \<^verbatim>\<open>_play_audio\<close> for that type.
\<close>

definition speak_alert ::
  "alert_system \<Rightarrow> real \<Rightarrow> real \<Rightarrow> string \<Rightarrow> alert_system \<times> string option"
where
  "speak_alert self t_check t_set alert_type =
     (if \<not> audio_enabled self then (self, None)
      else if \<not> can_alert self t_check alert_type then (self, None)
      else (self\<lparr>last_alert_time := (last_alert_time self)(alert_type \<mapsto> t_set)\<rparr>,
            Some alert_type))"

text \<open>
  The body of the background thread, \<^verbatim>\<open>_play_audio\<close>. What the speech synthesis, the
  file system and the mixer do is given by \<open>audio_env\<close>: each flag says whether that
  call returns normally. The outcome records the message whose playback was started, whether
  the warning of the \<^verbatim>\<open>except\<close> branch was printed, and whether a temporary file is
  left behind. Waiting for the end of the playback is outside the model.
\<close>

record audio_env =
  tts_ok :: bool
  tmpfile_ok :: bool
  save_ok :: bool
  load_ok :: bool
  play_ok :: bool
  remove_ok :: bool

record audio_outcome =
  played :: "string option"
  warned :: bool
  temp_left :: bool

definition play_audio :: "alert_system \<Rightarrow> string \<Rightarrow> audio_env \<Rightarrow> audio_outcome" where
  "play_audio self alert_type env =
     (case alerts self alert_type of
        None \<Rightarrow> \<lparr>played = None, warned = False, temp_left = False\<rparr>
      | Some msg \<Rightarrow>
          if \<not> tts_ok env \<or> \<not> tmpfile_ok env
          then \<lparr>played = None, warned = True, temp_left = False\<rparr>
          else if \<not> save_ok env \<or> \<not> load_ok env \<or> \<not> play_ok env
          then \<lparr>played = None, warned = True, temp_left = \<not> remove_ok env\<rparr>
          else \<lparr>played = Some msg, warned = False, temp_left = \<not> remove_ok env\<rparr>)"

text \<open>
  A session of dispatch calls, each with its alert type and its two clock readings; the
  result is the dispatcher at the end and the threads started, in order.
\<close>

fun run_dispatches ::
  "alert_system \<Rightarrow> (string \<times> real \<times> real) list \<Rightarrow> alert_system \<times> string list"
where
  "run_dispatches self [] = (self, [])"
| "run_dispatches self ((alert_type, t_check, t_set) # calls) =
     (let (self', started) = speak_alert self t_check t_set alert_type;
          (self'', rest) = run_dispatches self' calls
      in (self'', (case started of None \<Rightarrow> [] | Some t \<Rightarrow> [t]) @ rest))"

section \<open>Report statistics: src/reporting/report\_generator.py\<close>

text \<open>
  A violation is the dictionary the violation logger returns; \<^verbatim>\<open>_calculate_stats\<close>
  reads its keys \<^verbatim>\<open>'type'\<close> and \<^verbatim>\<open>'timestamp'\<close> only.
\<close>

record violation =
  vtype :: string
  vtimestamp :: string

record timeline_entry =
  entry_time :: string
  entry_type :: string
  entry_severity :: int

text \<open>
  \<^verbatim>\<open>average_severity\<close> is the int 0 or the float quotient of two ints; it is a real
  number here, the quotient taken exactly.
\<close>

record stats =
  total :: int
  by_type :: "string \<rightharpoonup> int"
  timeline :: "timeline_entry list"
  severity_score :: int
  average_severity :: real

record report_generator =
  severity_map :: "string \<rightharpoonup> int"

definition report_generator_init :: report_generator where
  "report_generator_init =
     \<lparr>severity_map =
        [''FACE_DISAPPEARED'' \<mapsto> 1,
         ''GAZE_AWAY'' \<mapsto> 2,
         ''MOUTH_MOVING'' \<mapsto> 3,
         ''MULTIPLE_FACES'' \<mapsto> 4,
         ''OBJECT_DETECTED'' \<mapsto> 5,
         ''AUDIO_DETECTED'' \<mapsto> 3]\<rparr>"

text \<open>The body of the \<^verbatim>\<open>for v in violations\<close> loop.\<close>

definition stats_step :: "report_generator \<Rightarrow> stats \<Rightarrow> violation \<Rightarrow> stats" where
  "stats_step self st v =
     (let count = dict_get (by_type st) (vtype v) 0 + 1;
          severity = dict_get (severity_map self) (vtype v) 1
      in st\<lparr>by_type := (by_type st)(vtype v \<mapsto> count),
            severity_score := severity_score st + severity,
            timeline := timeline st @
              [\<lparr>entry_time = vtimestamp v, entry_type = vtype v, entry_severity = severity\<rparr>]\<rparr>)"

definition calculate_stats :: "report_generator \<Rightarrow> violation list \<Rightarrow> stats" where
  "calculate_stats self violations =
     (let st0 = \<lparr>total = int (length violations), by_type = Map.empty, timeline = [],
                 severity_score = 0, average_severity = 0\<rparr>;
          st = foldl (stats_step self) st0 violations
      in if total st > 0
         then st\<lparr>average_severity := real_of_int (severity_score st) / real_of_int (total st)\<rparr>
         else st)"

section \<open>Sample inputs\<close>

text \<open>Frames and violations used to instantiate the theorems below.\<close>

definition frame_face_absent :: results where
  "frame_face_absent =
     \<lparr>face_present = False, gaze_direction = ''Center'', eye_ratio = 0.3, mouth_moving = False,
      multiple_faces = False, objects_detected = False, timestamp = ''2024-01-01 10:00:00''\<rparr>"

definition frame_clean :: results where
  "frame_clean =
     \<lparr>face_present = True, gaze_direction = ''Center'', eye_ratio = 0.3, mouth_moving = False,
      multiple_faces = False, objects_detected = False, timestamp = ''2024-01-01 10:00:01''\<rparr>"

definition frame_object :: results where
  "frame_object =
     \<lparr>face_present = True, gaze_direction = ''Center'', eye_ratio = 0.3, mouth_moving = False,
      multiple_faces = False, objects_detected = True, timestamp = ''2024-01-01 10:00:02''\<rparr>"

definition calculator_with :: "int \<Rightarrow> int list \<Rightarrow> calculator" where
  "calculator_with ws xs =
     \<lparr>window_size = ws, history = \<lparr>items = xs, maxlen = nat ws\<rparr>, weights = default_weights\<rparr>"

section \<open>Properties of the risk fusion engine\<close>

lemma then_do_Inr [simp]: "then_do (Inr x) f = f x"
  by (simp add: then_do_def)

lemma then_do_Inl [simp]: "then_do (Inl e) f = Inl e"
  by (simp add: then_do_def)

lemma compute_frame_score_weights:
  assumes "weights self ''FACE_DISAPPEARED'' = Some w1"
    and "weights self ''MULTIPLE_FACES'' = Some w2"
    and "weights self ''OBJECT_DETECTED'' = Some w3"
    and "weights self ''MOUTH_MOVING'' = Some w4"
    and "weights self ''GAZE_AWAY'' = Some w5"
  shows "compute_frame_score self r =
     Inr (min ((if \<not> face_present r then w1 else 0) +
               (if multiple_faces r then w2 else 0) +
               (if objects_detected r then w3 else 0) +
               (if mouth_moving r then w4 else 0) +
               (if gaze_direction r \<noteq> ''Center'' then w5 else 0)) 100,
          (if \<not> face_present r then [''Face not visible''] else []) @
          (if multiple_faces r then [''Multiple faces detected''] else []) @
          (if objects_detected r then [''Suspicious object detected''] else []) @
          (if mouth_moving r then [''Mouth movement detected''] else []) @
          (if gaze_direction r \<noteq> ''Center'' then [''Looking away from screen''] else []))"
  using assms by (simp add: compute_frame_score_def add_condition_def)

lemma default_weights_lookup:
  "default_weights ''FACE_DISAPPEARED'' = Some 40"
  "default_weights ''MULTIPLE_FACES'' = Some 50"
  "default_weights ''OBJECT_DETECTED'' = Some 45"
  "default_weights ''MOUTH_MOVING'' = Some 20"
  "default_weights ''GAZE_AWAY'' = Some 15"
  by (simp_all add: default_weights_def)

lemma frame_score_bounded:
  assumes "weights self = default_weights"
  shows "\<exists>s reasons. compute_frame_score self r = Inr (s, reasons) \<and> 0 \<le> s \<and> s \<le> 100"
proof -
  have "compute_frame_score self r =
     Inr (min ((if \<not> face_present r then 40 else 0) +
               (if multiple_faces r then 50 else 0) +
               (if objects_detected r then 45 else 0) +
               (if mouth_moving r then 20 else 0) +
               (if gaze_direction r \<noteq> ''Center'' then 15 else 0)) 100,
          (if \<not> face_present r then [''Face not visible''] else []) @
          (if multiple_faces r then [''Multiple faces detected''] else []) @
          (if objects_detected r then [''Suspicious object detected''] else []) @
          (if mouth_moving r then [''Mouth movement detected''] else []) @
          (if gaze_direction r \<noteq> ''Center'' then [''Looking away from screen''] else []))"
    by (rule compute_frame_score_weights) (simp_all add: assms default_weights_lookup)
  then show ?thesis by auto
qed

lemma frame_score_weights_only:
  "weights self' = weights self \<Longrightarrow> compute_frame_score self' r = compute_frame_score self r"
  by (simp add: compute_frame_score_def add_condition_def)

lemma int_truediv_nonneg:
  "0 \<le> a \<Longrightarrow> 0 < b \<Longrightarrow> int_truediv a b = Inr (a div b)"
  by (cases "a = 0") (simp_all add: int_truediv_def)

lemma int_truediv_trunc:
  assumes "0 < b"
  shows "int_truediv a b = Inr (trunc (real_of_int a / real_of_int b))"
proof (cases "0 \<le> a")
  case True
  then have "trunc (real_of_int a / real_of_int b) = a div b"
    using assms by (simp add: trunc_def floor_divide_of_int_eq)
  then show ?thesis using True assms by (simp add: int_truediv_nonneg)
next
  case False
  then have neg: "a < 0" by simp
  then have "real_of_int a / real_of_int b < 0"
    using assms by (simp add: divide_neg_pos)
  then have "trunc (real_of_int a / real_of_int b) = \<lceil>real_of_int a / real_of_int b\<rceil>"
    by (simp add: trunc_def)
  also have "\<dots> = - \<lfloor>real_of_int (- a) / real_of_int b\<rfloor>"
    by (simp add: ceiling_def)
  also have "\<dots> = - ((- a) div b)"
    by (simp only: floor_divide_of_int_eq)
  finally show ?thesis using neg assms by (simp add: int_truediv_def)
qed

lemma sum_list_bounds:
  "\<forall>x \<in> set xs. 0 \<le> x \<and> x \<le> (100::int) \<Longrightarrow> 0 \<le> sum_list xs \<and> sum_list xs \<le> 100 * int (length xs)"
  by (induction xs) auto

lemma mean_bounds:
  assumes "\<forall>x \<in> set xs. 0 \<le> x \<and> x \<le> (100::int)" "xs \<noteq> []"
  shows "0 \<le> sum_list xs div int (length xs) \<and> sum_list xs div int (length xs) \<le> 100"
proof -
  have n: "0 < int (length xs)" using assms(2) by simp
  have b: "0 \<le> sum_list xs \<and> sum_list xs \<le> 100 * int (length xs)"
    using assms(1) by (rule sum_list_bounds)
  have "sum_list xs div int (length xs) \<le> (100 * int (length xs)) div int (length xs)"
    using zdiv_mono1 [of "sum_list xs" "100 * int (length xs)" "int (length xs)"] b n by blast
  moreover have "(100 * int (length xs)) div int (length xs) = 100"
    using n by simp
  ultimately have "sum_list xs div int (length xs) \<le> 100" by simp
  moreover have "0 \<le> sum_list xs div int (length xs)"
    using b n by (simp add: pos_imp_zdiv_nonneg_iff)
  ultimately show ?thesis by simp
qed

lemma deque_append_items:
  assumes "length (items d) \<le> maxlen d" "0 < maxlen d"
  shows "items (deque_append d x) = (if length (items d) = maxlen d then tl (items d) else items d) @ [x]"
    and "maxlen (deque_append d x) = maxlen d"
  using assms by (cases "items d"; auto simp add: deque_append_def Let_def)+

lemma update_inv:
  assumes inv: "calculator_inv self"
    and fs: "compute_frame_score self r = Inr (s, reasons)"
    and sb: "0 \<le> s \<and> s \<le> 100"
  shows "\<exists>self'. update self r =
           Inr ((sum_list (items (history self')) div int (length (items (history self'))), reasons), self') \<and>
         items (history self') =
           (if length (items (history self)) = nat (window_size self)
            then tl (items (history self)) else items (history self)) @ [s] \<and>
         window_size self' = window_size self \<and>
         calculator_inv self'"
proof -
  define d where "d = history self"
  define self' where "self' = self\<lparr>history := deque_append d s\<rparr>"
  have len: "length (items d) \<le> maxlen d" and pos: "0 < maxlen d"
    and ml: "maxlen d = nat (window_size self)"
    using inv by (simp_all add: calculator_inv_def d_def)
  have it: "items (history self') =
      (if length (items d) = maxlen d then tl (items d) else items d) @ [s]"
    and ml': "maxlen (history self') = maxlen d"
    using deque_append_items [OF len pos, of s] by (simp_all add: self'_def)
  have sub: "set (if length (items d) = maxlen d then tl (items d) else items d) \<subseteq> set (items d)"
    by (cases "items d") auto
  have bnd: "\<forall>x \<in> set (items (history self')). 0 \<le> x \<and> x \<le> 100"
    using inv sb sub by (auto simp add: it calculator_inv_def d_def)
  have len': "length (items (history self')) \<le> maxlen d"
    using len pos by (cases "items d") (auto simp add: it)
  have inv': "calculator_inv self'"
    using inv bnd len' ml' by (simp add: calculator_inv_def self'_def d_def)
  have ne: "0 < int (length (items (history self')))" by (simp add: it)
  have nn: "0 \<le> sum_list (items (history self'))"
    using sum_list_bounds [OF bnd] by simp
  have "update self r =
      Inr ((sum_list (items (history self')) div int (length (items (history self'))), reasons), self')"
    using int_truediv_nonneg [OF nn ne]
    by (simp add: update_def fs Let_def self'_def d_def)
  moreover have "window_size self' = window_size self" by (simp add: self'_def)
  ultimately show ?thesis using it inv' ml by (auto simp add: d_def)
qed

lemma init_inv: "calculator_init ws = Inr self \<Longrightarrow> 0 < ws \<Longrightarrow> calculator_inv self"
  by (auto simp add: calculator_init_def calculator_inv_def split: if_splits)

lemma update_preserves_inv:
  assumes "calculator_inv self" "update self r = Inr (out, self')"
  shows "calculator_inv self'"
proof -
  obtain s reasons where fs: "compute_frame_score self r = Inr (s, reasons)" and sb: "0 \<le> s \<and> s \<le> 100"
    using frame_score_bounded [of self r] assms(1) by (auto simp add: calculator_inv_def)
  from update_inv [OF assms(1) fs sb] assms(2) show ?thesis by auto
qed

lemma reachable_inv: "reachable self \<Longrightarrow> calculator_inv self"
  by (induction rule: reachable.induct) (auto intro: init_inv update_preserves_inv)


lemma update_total:
  assumes inv: "calculator_inv self"
  shows "\<exists>s reasons self'.
           compute_frame_score self r = Inr (s, reasons) \<and> 0 \<le> s \<and> s \<le> 100 \<and>
           update self r =
             Inr ((sum_list (items (history self')) div int (length (items (history self'))), reasons), self') \<and>
           items (history self') =
             (if length (items (history self)) = nat (window_size self)
              then tl (items (history self)) else items (history self)) @ [s] \<and>
           window_size self' = window_size self \<and>
           calculator_inv self'"
proof -
  obtain s reasons where fs: "compute_frame_score self r = Inr (s, reasons)"
    and sb: "0 \<le> s \<and> s \<le> 100"
    using frame_score_bounded [of self r] inv by (auto simp add: calculator_inv_def)
  from update_inv [OF inv fs sb] fs sb show ?thesis by blast
qed

lemma run_updates_total:
  assumes "calculator_inv self"
  shows "\<exists>outs self'. run_updates self rs = Inr (outs, self') \<and>
           length outs = length rs \<and>
           window_size self' = window_size self \<and>
           calculator_inv self' \<and>
           (\<forall>out \<in> set outs. 0 \<le> fst out \<and> fst out \<le> 100)"
  using assms
proof (induction rs arbitrary: self)
  case Nil
  then show ?case by simp
next
  case (Cons r rs)
  obtain s reasons self1 where
    up: "update self r =
       Inr ((sum_list (items (history self1)) div int (length (items (history self1))), reasons), self1)"
    and it: "items (history self1) =
             (if length (items (history self)) = nat (window_size self)
              then tl (items (history self)) else items (history self)) @ [s]"
    and ws: "window_size self1 = window_size self"
    and inv1: "calculator_inv self1"
    using update_total [OF Cons.prems, of r] by blast
  have ne: "items (history self1) \<noteq> []" by (simp add: it)
  have bnd: "\<forall>x \<in> set (items (history self1)). 0 \<le> x \<and> x \<le> 100"
    using inv1 by (simp add: calculator_inv_def)
  note mb = mean_bounds [OF bnd ne]
  obtain outs self' where
    run: "run_updates self1 rs = Inr (outs, self')"
    and rest: "length outs = length rs" "window_size self' = window_size self1"
       "calculator_inv self'" "\<forall>out \<in> set outs. 0 \<le> fst out \<and> fst out \<le> 100"
    using Cons.IH [OF inv1] by blast
  show ?case using up run rest ws mb by simp
qed


lemma trunc_mean:
  assumes "0 \<le> sum_list xs" "xs \<noteq> []"
  shows "trunc (real_of_int (sum_list xs) / real (length xs)) = sum_list xs div int (length xs)"
proof -
  have "real (length xs) = real_of_int (int (length xs))" by simp
  then have "real_of_int (sum_list xs) / real (length xs) =
      real_of_int (sum_list xs) / real_of_int (int (length xs))" by simp
  moreover have "0 \<le> real_of_int (sum_list xs) / real_of_int (int (length xs))"
    using assms by simp
  ultimately show ?thesis
    by (simp only: trunc_def if_True floor_divide_of_int_eq)
qed

lemma run_updates_same_score:
  assumes "calculator_inv self"
    and "\<forall>r \<in> set rs. \<exists>reasons. compute_frame_score self r = Inr (s, reasons)"
    and "run_updates self rs = Inr (outs, self')"
  shows "items (history self') =
     drop (length (items (history self)) + length rs - nat (window_size self))
       (items (history self) @ replicate (length rs) s)"
  using assms
proof (induction rs arbitrary: self outs)
  case Nil
  then show ?case by (simp add: calculator_inv_def)
next
  case (Cons r rs)
  obtain s1 reasons self1 where
    fs: "compute_frame_score self r = Inr (s1, reasons)"
    and up: "update self r =
       Inr ((sum_list (items (history self1)) div int (length (items (history self1))), reasons), self1)"
    and it: "items (history self1) =
             (if length (items (history self)) = nat (window_size self)
              then tl (items (history self)) else items (history self)) @ [s1]"
    and ws: "window_size self1 = window_size self"
    and inv1: "calculator_inv self1"
    using update_total [OF Cons.prems(1), of r] by blast
  have s1: "s1 = s" using fs Cons.prems(2) by auto
  have w: "weights self1 = weights self"
    using inv1 Cons.prems(1) by (simp add: calculator_inv_def)
  have all: "\<forall>r \<in> set rs. \<exists>reasons. compute_frame_score self1 r = Inr (s, reasons)"
    using Cons.prems(2) frame_score_weights_only [OF w] by simp
  obtain outs1 where run1: "run_updates self1 rs = Inr (outs1, self')"
    using Cons.prems(3) up by (auto simp add: then_do_def split: sum.splits)
  have ih: "items (history self') =
     drop (length (items (history self1)) + length rs - nat (window_size self1))
       (items (history self1) @ replicate (length rs) s)"
    using Cons.IH [OF inv1 all run1] .
  have len: "length (items (history self)) \<le> nat (window_size self)"
    and pos: "0 < nat (window_size self)"
    using Cons.prems(1) by (simp_all add: calculator_inv_def)
  show ?case
  proof (cases "length (items (history self)) = nat (window_size self)")
    case True
    then obtain x xs where xs: "items (history self) = x # xs"
      using pos by (cases "items (history self)") auto
    show ?thesis using True xs ih it s1 ws by simp
  next
    case False
    then have lt: "length (items (history self)) < nat (window_size self)" using len by simp
    show ?thesis using False lt ih it s1 ws by (simp add: Suc_diff_le)
  qed
qed

lemma run_updates_last_avg:
  assumes "calculator_inv self" "rs \<noteq> []" "run_updates self rs = Inr (outs, self')"
  shows "outs \<noteq> [] \<and>
     fst (last outs) = sum_list (items (history self')) div int (length (items (history self')))"
  using assms
proof (induction rs arbitrary: self outs)
  case Nil
  then show ?case by simp
next
  case (Cons r rs)
  obtain s1 reasons self1 where
    up: "update self r =
       Inr ((sum_list (items (history self1)) div int (length (items (history self1))), reasons), self1)"
    and inv1: "calculator_inv self1"
    using update_total [OF Cons.prems(1), of r] by blast
  obtain outs1 where run1: "run_updates self1 rs = Inr (outs1, self')"
    and outs: "outs = (sum_list (items (history self1)) div int (length (items (history self1))), reasons) # outs1"
    using Cons.prems(3) up by (auto simp add: then_do_def split: sum.splits)
  show ?case
  proof (cases rs)
    case Nil
    then show ?thesis using run1 outs by simp
  next
    case (Cons r' rs')
    then have "rs \<noteq> []" by simp
    from Cons.IH [OF inv1 this run1] outs show ?thesis by simp
  qed
qed


lemma run_updates_uniform:
  assumes "calculator_inv self"
    and "items (history self) = replicate m s"
    and "\<forall>r \<in> set rs. compute_frame_score self r = Inr (s, reasons)"
  shows "\<exists>self'. run_updates self rs = Inr (replicate (length rs) (s, reasons), self')"
  using assms
proof (induction rs arbitrary: self m)
  case Nil
  then show ?case by simp
next
  case (Cons r rs)
  have fs: "compute_frame_score self r = Inr (s, reasons)" using Cons.prems(3) by simp
  obtain s1 reasons1 self1 where
    fs1: "compute_frame_score self r = Inr (s1, reasons1)"
    and up: "update self r =
       Inr ((sum_list (items (history self1)) div int (length (items (history self1))), reasons1), self1)"
    and it: "items (history self1) =
             (if length (items (history self)) = nat (window_size self)
              then tl (items (history self)) else items (history self)) @ [s1]"
    and inv1: "calculator_inv self1"
    using update_total [OF Cons.prems(1), of r] by blast
  have eq: "s1 = s" "reasons1 = reasons" using fs fs1 by simp_all
  define m1 where "m1 = (if m = nat (window_size self) then m - 1 else m)"
  have "items (history self1) = replicate m1 s @ [s]"
    using it Cons.prems(2) eq by (cases m) (auto simp add: m1_def)
  then have it1: "items (history self1) = replicate (Suc m1) s"
    by (simp add: replicate_append_same)
  have avg: "sum_list (items (history self1)) div int (length (items (history self1))) = s"
    by (simp add: it1 sum_list_replicate del: replicate.simps)
  have w: "weights self1 = weights self"
    using inv1 Cons.prems(1) by (simp add: calculator_inv_def)
  have all: "\<forall>r \<in> set rs. compute_frame_score self1 r = Inr (s, reasons)"
    using Cons.prems(3) frame_score_weights_only [OF w] by simp
  obtain self' where "run_updates self1 rs = Inr (replicate (length rs) (s, reasons), self')"
    using Cons.IH [OF inv1 it1 all] by blast
  then show ?case using up avg eq by simp
qed

lemmas calc_eval = update_def compute_frame_score_def add_condition_def default_weights_def
  deque_append_def int_truediv_def Let_def calculator_with_def calculator_init_def
  frame_face_absent_def frame_clean_def frame_object_def

lemma reachable_sample: "reachable (calculator_with 2 [40, 0])"
proof -
  have r0: "reachable (calculator_with 2 [])"
    by (rule reachable.init [of 2]) (simp_all add: calc_eval)
  have u1: "update (calculator_with 2 []) frame_face_absent =
      Inr ((40, [''Face not visible'']), calculator_with 2 [40])"
    by (simp add: calc_eval)
  have r1: "reachable (calculator_with 2 [40])"
    by (rule reachable.step [OF r0 u1])
  have u2: "update (calculator_with 2 [40]) frame_clean = Inr ((20, []), calculator_with 2 [40, 0])"
    by (simp add: calc_eval)
  show ?thesis by (rule reachable.step [OF r1 u2])
qed

text \<open>
  C4: \<^verbatim>\<open>compute_frame_score\<close> looks at face absence, multiple faces, object, mouth
  movement and gaze away from \<^verbatim>\<open>Center\<close>, in this order. Each condition that holds
  adds the weight configured under its key and appends its reason string, so the reasons
  come in that same order, and the score returned is the minimum of the sum and 100.
  The weights of a constructed calculator are 40, 50, 45, 20 and 15.
\<close>

theorem compute_frame_score_additive:
  "(weights self ''FACE_DISAPPEARED'' = Some w1 \<and>
    weights self ''MULTIPLE_FACES'' = Some w2 \<and>
    weights self ''OBJECT_DETECTED'' = Some w3 \<and>
    weights self ''MOUTH_MOVING'' = Some w4 \<and>
    weights self ''GAZE_AWAY'' = Some w5 \<longrightarrow>
    compute_frame_score self r =
      Inr (min ((if \<not> face_present r then w1 else 0) +
                (if multiple_faces r then w2 else 0) +
                (if objects_detected r then w3 else 0) +
                (if mouth_moving r then w4 else 0) +
                (if gaze_direction r \<noteq> ''Center'' then w5 else 0)) 100,
           (if \<not> face_present r then [''Face not visible''] else []) @
           (if multiple_faces r then [''Multiple faces detected''] else []) @
           (if objects_detected r then [''Suspicious object detected''] else []) @
           (if mouth_moving r then [''Mouth movement detected''] else []) @
           (if gaze_direction r \<noteq> ''Center'' then [''Looking away from screen''] else []))) \<and>
   (calculator_init ws = Inr c \<longrightarrow>
    weights c ''FACE_DISAPPEARED'' = Some 40 \<and>
    weights c ''MULTIPLE_FACES'' = Some 50 \<and>
    weights c ''OBJECT_DETECTED'' = Some 45 \<and>
    weights c ''MOUTH_MOVING'' = Some 20 \<and>
    weights c ''GAZE_AWAY'' = Some 15)"
proof (intro conjI impI)
  assume "weights self ''FACE_DISAPPEARED'' = Some w1 \<and>
    weights self ''MULTIPLE_FACES'' = Some w2 \<and>
    weights self ''OBJECT_DETECTED'' = Some w3 \<and>
    weights self ''MOUTH_MOVING'' = Some w4 \<and>
    weights self ''GAZE_AWAY'' = Some w5"
  then show "compute_frame_score self r =
      Inr (min ((if \<not> face_present r then w1 else 0) +
                (if multiple_faces r then w2 else 0) +
                (if objects_detected r then w3 else 0) +
                (if mouth_moving r then w4 else 0) +
                (if gaze_direction r \<noteq> ''Center'' then w5 else 0)) 100,
           (if \<not> face_present r then [''Face not visible''] else []) @
           (if multiple_faces r then [''Multiple faces detected''] else []) @
           (if objects_detected r then [''Suspicious object detected''] else []) @
           (if mouth_moving r then [''Mouth movement detected''] else []) @
           (if gaze_direction r \<noteq> ''Center'' then [''Looking away from screen''] else []))"
    by (intro compute_frame_score_weights) simp_all
next
  assume "calculator_init ws = Inr c"
  then have w: "weights c = default_weights"
    by (auto simp add: calculator_init_def split: if_splits)
  show "weights c ''FACE_DISAPPEARED'' = Some 40" by (simp add: w default_weights_lookup)
  show "weights c ''MULTIPLE_FACES'' = Some 50" by (simp add: w default_weights_lookup)
  show "weights c ''OBJECT_DETECTED'' = Some 45" by (simp add: w default_weights_lookup)
  show "weights c ''MOUTH_MOVING'' = Some 20" by (simp add: w default_weights_lookup)
  show "weights c ''GAZE_AWAY'' = Some 15" by (simp add: w default_weights_lookup)
qed

text \<open>
  An instance: the calculator that \<^verbatim>\<open>main\<close> constructs, on a frame where all five
  conditions hold. The sum 170 is clamped to 100 and the five reasons come in order.
\<close>

theorem compute_frame_score_additive_witness:
  "calculator_init 30 =
     Inr \<lparr>window_size = 30, history = \<lparr>items = [], maxlen = 30\<rparr>, weights = default_weights\<rparr> \<and>
   compute_frame_score
     \<lparr>window_size = 30, history = \<lparr>items = [], maxlen = 30\<rparr>, weights = default_weights\<rparr>
     \<lparr>face_present = False, gaze_direction = ''Left'', eye_ratio = 0.3, mouth_moving = True,
      multiple_faces = True, objects_detected = True, timestamp = ''2024-01-01 10:00:00''\<rparr> =
   Inr (100, [''Face not visible'', ''Multiple faces detected'', ''Suspicious object detected'',
              ''Mouth movement detected'', ''Looking away from screen''])"
  using compute_frame_score_additive
    [of "\<lparr>window_size = 30, history = \<lparr>items = [], maxlen = 30\<rparr>, weights = default_weights\<rparr>"
        40 50 45 20 15
        "\<lparr>face_present = False, gaze_direction = ''Left'', eye_ratio = 0.3, mouth_moving = True,
          multiple_faces = True, objects_detected = True, timestamp = ''2024-01-01 10:00:00''\<rparr>"
        30
        "\<lparr>window_size = 30, history = \<lparr>items = [], maxlen = 30\<rparr>, weights = default_weights\<rparr>"]
  by (simp add: calculator_init_def)

text \<open>
  C3: on every state of a calculator with a positive window size, \<^verbatim>\<open>update\<close> returns.
  It appends the score of the current frame to the window, dropping the oldest entry when
  the window already held \<^verbatim>\<open>window_size\<close> entries; the average it returns is the
  arithmetic mean of the new window truncated to an integer; the reasons it returns are
  those \<^verbatim>\<open>compute_frame_score\<close> gives for the current frame. On the empty window of a
  fresh calculator the average is the score of that first frame.
\<close>

theorem update_window_mean:
  assumes "reachable self"
  shows "\<exists>score reasons avg self'.
     compute_frame_score self r = Inr (score, reasons) \<and>
     update self r = Inr ((avg, reasons), self') \<and>
     items (history self') =
       (if length (items (history self)) = nat (window_size self)
        then tl (items (history self)) else items (history self)) @ [score] \<and>
     window_size self' = window_size self \<and>
     avg = trunc (real_of_int (sum_list (items (history self'))) / real (length (items (history self')))) \<and>
     (items (history self) = [] \<longrightarrow> avg = score)"
proof -
  have inv: "calculator_inv self" using assms by (rule reachable_inv)
  obtain s reasons self' where
    fs: "compute_frame_score self r = Inr (s, reasons)"
    and up: "update self r =
       Inr ((sum_list (items (history self')) div int (length (items (history self'))), reasons), self')"
    and it: "items (history self') =
             (if length (items (history self)) = nat (window_size self)
              then tl (items (history self)) else items (history self)) @ [s]"
    and ws: "window_size self' = window_size self"
    and inv': "calculator_inv self'"
    using update_total [OF inv, of r] by blast
  have ne: "items (history self') \<noteq> []" by (simp add: it)
  have bnd: "\<forall>x \<in> set (items (history self')). 0 \<le> x \<and> x \<le> 100"
    using inv' by (simp add: calculator_inv_def)
  have nn: "0 \<le> sum_list (items (history self'))"
    using sum_list_bounds [OF bnd] by simp
  have tr: "sum_list (items (history self')) div int (length (items (history self'))) =
      trunc (real_of_int (sum_list (items (history self'))) / real (length (items (history self'))))"
    using trunc_mean [OF nn ne] by simp
  have first: "items (history self) = [] \<longrightarrow>
      sum_list (items (history self')) div int (length (items (history self'))) = s"
  proof
    assume e: "items (history self) = []"
    have "0 < window_size self" using inv by (simp add: calculator_inv_def)
    then have "items (history self') = [s]" using e it by simp
    then show "sum_list (items (history self')) div int (length (items (history self'))) = s"
      by simp
  qed
  show ?thesis using fs up it ws tr first by blast
qed

text \<open>
  An instance: a window of size 2 holding 40 and 0, reached by two calls; the third call
  drops the 40, stores 45 and returns 22, the mean 22.5 truncated.
\<close>

theorem update_window_mean_witness:
  "reachable (calculator_with 2 [40, 0]) \<and>
   compute_frame_score (calculator_with 2 [40, 0]) frame_object =
     Inr (45, [''Suspicious object detected'']) \<and>
   update (calculator_with 2 [40, 0]) frame_object =
     Inr ((22, [''Suspicious object detected'']), calculator_with 2 [0, 45]) \<and>
   (22::int) = trunc (real_of_int (sum_list [0, 45]) / real (length [0, 45::int]))"
proof -
  have h: "reachable (calculator_with 2 [40, 0])" by (rule reachable_sample)
  have fs: "compute_frame_score (calculator_with 2 [40, 0]) frame_object =
     Inr (45, [''Suspicious object detected''])"
    by (simp add: calc_eval)
  have up: "update (calculator_with 2 [40, 0]) frame_object =
     Inr ((22, [''Suspicious object detected'']), calculator_with 2 [0, 45])"
    by (simp add: calc_eval)
  have it: "items (history (calculator_with 2 [0, 45])) = [0, 45]"
    by (simp add: calculator_with_def)
  from update_window_mean [OF h, of frame_object] fs up it
  have "(22::int) = trunc (real_of_int (sum_list [0, 45]) / real (length [0, 45::int]))"
    by auto
  with h fs up show ?thesis by blast
qed

text \<open>
  C6: a calculator constructed with a positive window size runs any sequence of
  \<^verbatim>\<open>update\<close> calls without an exception; after it the window holds at most
  \<^verbatim>\<open>window_size\<close> entries, every rolling average returned on the way lies between 0
  and 100, and so does the frame score of any frame.
\<close>

theorem window_and_scores_bounded:
  assumes "calculator_init ws = Inr c0" "0 < ws"
  shows "\<exists>outs self. run_updates c0 rs = Inr (outs, self) \<and>
      window_size self = ws \<and>
      int (length (items (history self))) \<le> window_size self \<and>
      (\<forall>out \<in> set outs. 0 \<le> fst out \<and> fst out \<le> 100) \<and>
      (\<forall>r. \<exists>s reasons. compute_frame_score self r = Inr (s, reasons) \<and> 0 \<le> s \<and> s \<le> 100)"
proof -
  have inv0: "calculator_inv c0" using assms by (rule init_inv)
  have ws0: "window_size c0 = ws"
    using assms by (auto simp add: calculator_init_def split: if_splits)
  obtain outs self where run: "run_updates c0 rs = Inr (outs, self)"
    and ws: "window_size self = window_size c0"
    and inv: "calculator_inv self"
    and bnd: "\<forall>out \<in> set outs. 0 \<le> fst out \<and> fst out \<le> 100"
    using run_updates_total [OF inv0, of rs] by blast
  have len: "int (length (items (history self))) \<le> window_size self"
    using inv unfolding calculator_inv_def by linarith
  have fs: "\<forall>r. \<exists>s reasons. compute_frame_score self r = Inr (s, reasons) \<and> 0 \<le> s \<and> s \<le> 100"
    using frame_score_bounded [of self] inv by (simp add: calculator_inv_def)
  show ?thesis using run ws ws0 len bnd fs by blast
qed

text \<open>An instance: three frames on a fresh calculator with window size 2.\<close>

theorem window_and_scores_bounded_witness:
  "calculator_init 2 = Inr (calculator_with 2 []) \<and> (0::int) < 2 \<and>
   (\<exists>outs self.
      run_updates (calculator_with 2 []) [frame_face_absent, frame_clean, frame_object] =
        Inr (outs, self) \<and>
      window_size self = 2 \<and>
      int (length (items (history self))) \<le> window_size self \<and>
      (\<forall>out \<in> set outs. 0 \<le> fst out \<and> fst out \<le> 100) \<and>
      (\<forall>r. \<exists>s reasons. compute_frame_score self r = Inr (s, reasons) \<and> 0 \<le> s \<and> s \<le> 100))"
proof -
  have i: "calculator_init 2 = Inr (calculator_with 2 [])" by (simp add: calc_eval)
  have p: "(0::int) < 2" by simp
  from window_and_scores_bounded [OF i p, of "[frame_face_absent, frame_clean, frame_object]"] i p
  show ?thesis by blast
qed

text \<open>
  C8: with window size \<open>n\<close>, after \<open>n\<close> consecutive frames that all have frame score
  \<open>s\<close> the window holds \<open>n\<close> copies of \<open>s\<close> and the rolling average returned last is
  \<open>s\<close>, whatever the window held before. On a fresh calculator with window size 30,
  thirty frames with the face absent and no other condition each return the average 40
  and the single reason \<^verbatim>\<open>Face not visible\<close>.
\<close>

theorem identical_scores_average:
  "(reachable self \<and> window_size self = int (length rs) \<and>
    (\<forall>r \<in> set rs. \<exists>reasons. compute_frame_score self r = Inr (s, reasons)) \<longrightarrow>
    (\<exists>outs self'. run_updates self rs = Inr (outs, self') \<and>
       length outs = length rs \<and> outs \<noteq> [] \<and>
       fst (last outs) = s \<and>
       items (history self') = replicate (length rs) s)) \<and>
   (calculator_init 30 = Inr c0 \<and> length fs = 30 \<and>
    (\<forall>r \<in> set fs. \<not> face_present r \<and> \<not> multiple_faces r \<and> \<not> objects_detected r \<and>
       \<not> mouth_moving r \<and> gaze_direction r = ''Center'') \<longrightarrow>
    (\<exists>c. run_updates c0 fs = Inr (replicate 30 (40, [''Face not visible'']), c)))"
proof (intro conjI impI)
  assume a: "reachable self \<and> window_size self = int (length rs) \<and>
    (\<forall>r \<in> set rs. \<exists>reasons. compute_frame_score self r = Inr (s, reasons))"
  then have inv: "calculator_inv self" by (simp add: reachable_inv)
  have n: "nat (window_size self) = length rs" using a by simp
  have pos: "0 < window_size self" using inv by (simp add: calculator_inv_def)
  then have ne: "rs \<noteq> []" using a by auto
  have len: "length (items (history self)) \<le> length rs"
    using inv n by (simp add: calculator_inv_def)
  obtain outs self' where run: "run_updates self rs = Inr (outs, self')"
    and lo: "length outs = length rs"
    using run_updates_total [OF inv, of rs] by blast
  have all: "\<forall>r \<in> set rs. \<exists>reasons. compute_frame_score self r = Inr (s, reasons)"
    using a by simp
  have "items (history self') =
     drop (length (items (history self)) + length rs - nat (window_size self))
       (items (history self) @ replicate (length rs) s)"
    using run_updates_same_score [OF inv all run] .
  then have it: "items (history self') = replicate (length rs) s"
    using n by simp
  have la: "outs \<noteq> [] \<and>
     fst (last outs) = sum_list (items (history self')) div int (length (items (history self')))"
    using run_updates_last_avg [OF inv ne run] .
  have "sum_list (replicate (length rs) s) div int (length rs) = s"
    using ne by (simp add: sum_list_replicate)
  then have "fst (last outs) = s" using la it by simp
  then show "\<exists>outs self'. run_updates self rs = Inr (outs, self') \<and>
       length outs = length rs \<and> outs \<noteq> [] \<and>
       fst (last outs) = s \<and>
       items (history self') = replicate (length rs) s"
    using run lo la it by blast
next
  assume b: "calculator_init 30 = Inr c0 \<and> length fs = 30 \<and>
    (\<forall>r \<in> set fs. \<not> face_present r \<and> \<not> multiple_faces r \<and> \<not> objects_detected r \<and>
       \<not> mouth_moving r \<and> gaze_direction r = ''Center'')"
  then have "calculator_init 30 = Inr c0" by simp
  then have inv: "calculator_inv c0" by (rule init_inv) simp
  have w: "weights c0 = default_weights" using inv by (simp add: calculator_inv_def)
  have e: "items (history c0) = replicate 0 40"
    using b by (auto simp add: calculator_init_def)
  have all: "\<forall>r \<in> set fs. compute_frame_score c0 r = Inr (40, [''Face not visible''])"
  proof
    fix r assume "r \<in> set fs"
    then have r: "\<not> face_present r \<and> \<not> multiple_faces r \<and> \<not> objects_detected r \<and>
       \<not> mouth_moving r \<and> gaze_direction r = ''Center''" using b by simp
    have "compute_frame_score c0 r =
     Inr (min ((if \<not> face_present r then 40 else 0) +
               (if multiple_faces r then 50 else 0) +
               (if objects_detected r then 45 else 0) +
               (if mouth_moving r then 20 else 0) +
               (if gaze_direction r \<noteq> ''Center'' then 15 else 0)) 100,
          (if \<not> face_present r then [''Face not visible''] else []) @
          (if multiple_faces r then [''Multiple faces detected''] else []) @
          (if objects_detected r then [''Suspicious object detected''] else []) @
          (if mouth_moving r then [''Mouth movement detected''] else []) @
          (if gaze_direction r \<noteq> ''Center'' then [''Looking away from screen''] else []))"
      by (rule compute_frame_score_weights) (simp_all add: w default_weights_lookup)
    then show "compute_frame_score c0 r = Inr (40, [''Face not visible''])"
      using r by simp
  qed
  obtain c where "run_updates c0 fs = Inr (replicate (length fs) (40, [''Face not visible'']), c)"
    using run_updates_uniform [OF inv e all] by blast
  then show "\<exists>c. run_updates c0 fs = Inr (replicate 30 (40, [''Face not visible'']), c)"
    using b by auto
qed

text \<open>
  Instances: two frames of score 45 on a window of size 2 that held 40 and 0, and the
  thirty face-absent frames on the calculator \<^verbatim>\<open>main\<close> constructs.
\<close>

theorem identical_scores_average_witness:
  "reachable (calculator_with 2 [40, 0]) \<and>
   window_size (calculator_with 2 [40, 0]) = int (length [frame_object, frame_object]) \<and>
   compute_frame_score (calculator_with 2 [40, 0]) frame_object =
     Inr (45, [''Suspicious object detected'']) \<and>
   (\<exists>outs self'.
      run_updates (calculator_with 2 [40, 0]) [frame_object, frame_object] = Inr (outs, self') \<and>
      length outs = length [frame_object, frame_object] \<and> outs \<noteq> [] \<and>
      fst (last outs) = 45 \<and>
      items (history self') = replicate (length [frame_object, frame_object]) 45) \<and>
   calculator_init 30 = Inr (calculator_with 30 []) \<and>
   (\<exists>c. run_updates (calculator_with 30 []) (replicate 30 frame_face_absent) =
      Inr (replicate 30 (40, [''Face not visible'']), c))"
proof -
  have h: "reachable (calculator_with 2 [40, 0])" by (rule reachable_sample)
  have w: "window_size (calculator_with 2 [40, 0]) = int (length [frame_object, frame_object])"
    by (simp add: calculator_with_def)
  have a: "\<forall>r \<in> set [frame_object, frame_object].
      \<exists>reasons. compute_frame_score (calculator_with 2 [40, 0]) r = Inr (45, reasons)"
    by (simp add: calc_eval)
  have i: "calculator_init 30 = Inr (calculator_with 30 [])" by (simp add: calc_eval)
  have l: "length (replicate 30 frame_face_absent) = 30" by simp
  have f: "\<forall>r \<in> set (replicate 30 frame_face_absent).
       \<not> face_present r \<and> \<not> multiple_faces r \<and> \<not> objects_detected r \<and>
       \<not> mouth_moving r \<and> gaze_direction r = ''Center''"
    by (simp add: frame_face_absent_def)
  note t = identical_scores_average
    [of "calculator_with 2 [40, 0]" "[frame_object, frame_object]" 45
        "calculator_with 30 []" "replicate 30 frame_face_absent"]
  from t h w a have g1: "\<exists>outs self'.
      run_updates (calculator_with 2 [40, 0]) [frame_object, frame_object] = Inr (outs, self') \<and>
      length outs = length [frame_object, frame_object] \<and> outs \<noteq> [] \<and>
      fst (last outs) = 45 \<and>
      items (history self') = replicate (length [frame_object, frame_object]) 45"
    by blast
  from t i l f have g2: "\<exists>c. run_updates (calculator_with 30 []) (replicate 30 frame_face_absent) =
      Inr (replicate 30 (40, [''Face not visible'']), c)"
    by blast
  have fs: "compute_frame_score (calculator_with 2 [40, 0]) frame_object =
     Inr (45, [''Suspicious object detected''])"
    by (simp add: calc_eval)
  from h w fs g1 i g2 show ?thesis by blast
qed

section \<open>Properties of the violation classifier\<close>

text \<open>
  C2: the classifier returns no label or exactly one, the highest-ranked of
  FACE\_DISAPPEARED, MULTIPLE\_FACES, OBJECT\_DETECTED, MOUTH\_MOVING whose condition holds.
  With the face absent and several faces reported at once the label is FACE\_DISAPPEARED,
  not MULTIPLE\_FACES; with none of the four conditions there is no label.
\<close>

theorem violation_type_precedence:
  "violation_type r = spec_classify r \<and>
   (\<not> face_present r \<longrightarrow> violation_type r = Some ''FACE_DISAPPEARED'') \<and>
   (face_present r \<and> multiple_faces r \<longrightarrow> violation_type r = Some ''MULTIPLE_FACES'') \<and>
   (face_present r \<and> \<not> multiple_faces r \<and> objects_detected r \<longrightarrow>
      violation_type r = Some ''OBJECT_DETECTED'') \<and>
   (face_present r \<and> \<not> multiple_faces r \<and> \<not> objects_detected r \<and> mouth_moving r \<longrightarrow>
      violation_type r = Some ''MOUTH_MOVING'') \<and>
   (face_present r \<and> \<not> multiple_faces r \<and> \<not> objects_detected r \<and> \<not> mouth_moving r \<longrightarrow>
      violation_type r = None) \<and>
   (\<not> face_present r \<and> multiple_faces r \<longrightarrow>
      violation_type r = Some ''FACE_DISAPPEARED'' \<and> violation_type r \<noteq> Some ''MULTIPLE_FACES'')"
  by (simp add: violation_type_def spec_classify_def precedence_def condition_holds_def)

text \<open>
  Instances: a frame with the face absent and several faces reported, and a frame with
  none of the four conditions.
\<close>

theorem violation_type_precedence_witness:
  "violation_type
     \<lparr>face_present = False, gaze_direction = ''Center'', eye_ratio = 0.3, mouth_moving = False,
      multiple_faces = True, objects_detected = False, timestamp = ''2024-01-01 10:00:00''\<rparr> =
     Some ''FACE_DISAPPEARED'' \<and>
   violation_type
     \<lparr>face_present = True, gaze_direction = ''Left'', eye_ratio = 0.3, mouth_moving = False,
      multiple_faces = False, objects_detected = False, timestamp = ''2024-01-01 10:00:01''\<rparr> =
     None"
  using violation_type_precedence
    [of "\<lparr>face_present = False, gaze_direction = ''Center'', eye_ratio = 0.3, mouth_moving = False,
          multiple_faces = True, objects_detected = False, timestamp = ''2024-01-01 10:00:00''\<rparr>"]
    violation_type_precedence
    [of "\<lparr>face_present = True, gaze_direction = ''Left'', eye_ratio = 0.3, mouth_moving = False,
          multiple_faces = False, objects_detected = False, timestamp = ''2024-01-01 10:00:01''\<rparr>"]
  by (simp add: spec_classify_def precedence_def condition_holds_def)

section \<open>Properties of the alert dispatcher\<close>

lemma speak_alert_disabled:
  "\<not> audio_enabled self \<Longrightarrow> speak_alert self t_check t_set alert_type = (self, None)"
  by (simp add: speak_alert_def)

lemma run_dispatches_disabled:
  "\<not> audio_enabled self \<Longrightarrow> run_dispatches self calls = (self, [])"
proof (induction calls)
  case Nil
  then show ?case by simp
next
  case (Cons call calls)
  obtain alert_type t_check t_set where c: "call = (alert_type, t_check, t_set)"
    by (cases call) auto
  show ?case using Cons by (simp add: c speak_alert_disabled)
qed

lemma speak_alert_emits:
  "audio_enabled self \<Longrightarrow> can_alert self t_check alert_type \<Longrightarrow>
   speak_alert self t_check t_set alert_type =
     (self\<lparr>last_alert_time := (last_alert_time self)(alert_type \<mapsto> t_set)\<rparr>, Some alert_type)"
  by (simp add: speak_alert_def)

lemma speak_alert_suppressed:
  "\<not> can_alert self t_check alert_type \<Longrightarrow>
   speak_alert self t_check t_set alert_type = (self, None)"
  by (simp add: speak_alert_def)

lemma can_alert_after_emit:
  "can_alert (self\<lparr>last_alert_time := (last_alert_time self)(alert_type \<mapsto> t)\<rparr>) now alert_type
     \<longleftrightarrow> alert_cooldown self \<le> now - t"
  by (simp add: can_alert_def dict_get_def)

text \<open>
  C1: for any alert type, with audio enabled and a first dispatch that passes the cooldown
  check, a second dispatch whose clock reading is less than one cooldown after the recorded
  emission time starts nothing and changes nothing, so the two calls start exactly one
  background unit; a third dispatch at least one cooldown after the recorded time starts
  a second unit and records its own time. After an emission recorded at \<open>t\<close> the check
  \<^verbatim>\<open>_can_alert\<close> holds exactly when \<open>now - t\<close> is at least the cooldown. The unit
  started plays the message of the type when the type has one and synthesis, file and
  mixer calls succeed.
\<close>

theorem cooldown_one_emission_per_window:
  assumes "audio_enabled self"
    and "can_alert self t1 T"
    and "t2 - t1' < alert_cooldown self"
    and "alert_cooldown self \<le> t3 - t1'"
  shows "run_dispatches self [(T, t1, t1'), (T, t2, t2')] =
           (self\<lparr>last_alert_time := (last_alert_time self)(T \<mapsto> t1')\<rparr>, [T]) \<and>
         run_dispatches self [(T, t1, t1'), (T, t2, t2'), (T, t3, t3')] =
           (self\<lparr>last_alert_time := (last_alert_time self)(T \<mapsto> t3')\<rparr>, [T, T]) \<and>
         (can_alert (self\<lparr>last_alert_time := (last_alert_time self)(T \<mapsto> t1')\<rparr>) now T
            \<longleftrightarrow> alert_cooldown self \<le> now - t1') \<and>
         (alerts self T = Some msg \<and> tts_ok env \<and> tmpfile_ok env \<and> save_ok env \<and>
          load_ok env \<and> play_ok env \<longrightarrow>
            played (play_audio (self\<lparr>last_alert_time := (last_alert_time self)(T \<mapsto> t1')\<rparr>) T env) =
              Some msg)"
proof -
  define self1 where "self1 = self\<lparr>last_alert_time := (last_alert_time self)(T \<mapsto> t1')\<rparr>"
  have en1: "audio_enabled self1" using assms(1) by (simp add: self1_def)
  have cd1: "alert_cooldown self1 = alert_cooldown self" by (simp add: self1_def)
  have s1: "speak_alert self t1 t1' T = (self1, Some T)"
    using speak_alert_emits [OF assms(1,2)] by (simp add: self1_def)
  have c2: "\<not> can_alert self1 t2 T"
    using assms(3) by (simp add: self1_def can_alert_after_emit)
  have s2: "speak_alert self1 t2 t2' T = (self1, None)"
    using c2 by (rule speak_alert_suppressed)
  have c3: "can_alert self1 t3 T"
    using assms(4) by (simp add: self1_def can_alert_after_emit)
  have s3: "speak_alert self1 t3 t3' T =
      (self\<lparr>last_alert_time := (last_alert_time self)(T \<mapsto> t3')\<rparr>, Some T)"
    using speak_alert_emits [OF en1 c3, of t3'] by (simp add: self1_def)
  have two: "run_dispatches self [(T, t1, t1'), (T, t2, t2')] = (self1, [T])"
    by (simp add: s1 s2)
  have three: "run_dispatches self [(T, t1, t1'), (T, t2, t2'), (T, t3, t3')] =
      (self\<lparr>last_alert_time := (last_alert_time self)(T \<mapsto> t3')\<rparr>, [T, T])"
    by (simp add: s1 s2 s3)
  have audio: "alerts self T = Some msg \<and> tts_ok env \<and> tmpfile_ok env \<and> save_ok env \<and>
      load_ok env \<and> play_ok env \<longrightarrow> played (play_audio self1 T env) = Some msg"
    by (simp add: play_audio_def self1_def)
  show ?thesis using two three audio can_alert_after_emit [of self T t1' now]
    by (simp add: self1_def)
qed

text \<open>
  An instance: cooldown 5, dispatches of FACE\_DISAPPEARED at 1000, 1002 and 1006 on a fresh
  dispatcher.
\<close>

theorem cooldown_one_emission_per_window_witness:
  "audio_enabled (alert_system_init 5 True) \<and>
   can_alert (alert_system_init 5 True) 1000 ''FACE_DISAPPEARED'' \<and>
   (1002::real) - 1000 < alert_cooldown (alert_system_init 5 True) \<and>
   alert_cooldown (alert_system_init 5 True) \<le> (1006::real) - 1000 \<and>
   run_dispatches (alert_system_init 5 True)
     [(''FACE_DISAPPEARED'', 1000, 1000), (''FACE_DISAPPEARED'', 1002, 1002),
      (''FACE_DISAPPEARED'', 1006, 1006)] =
     ((alert_system_init 5 True)\<lparr>last_alert_time := [''FACE_DISAPPEARED'' \<mapsto> 1006]\<rparr>,
      [''FACE_DISAPPEARED'', ''FACE_DISAPPEARED'']) \<and>
   played (play_audio ((alert_system_init 5 True)\<lparr>last_alert_time := [''FACE_DISAPPEARED'' \<mapsto> 1000]\<rparr>)
      ''FACE_DISAPPEARED''
      \<lparr>tts_ok = True, tmpfile_ok = True, save_ok = True, load_ok = True, play_ok = True,
       remove_ok = True\<rparr>) = Some ''Please look at the screen''"
proof -
  have a: "audio_enabled (alert_system_init 5 True)" by (simp add: alert_system_init_def)
  have b: "can_alert (alert_system_init 5 True) 1000 ''FACE_DISAPPEARED''"
    by (simp add: alert_system_init_def can_alert_def dict_get_def)
  have c: "(1002::real) - 1000 < alert_cooldown (alert_system_init 5 True)"
    by (simp add: alert_system_init_def)
  have d: "alert_cooldown (alert_system_init 5 True) \<le> (1006::real) - 1000"
    by (simp add: alert_system_init_def)
  have e: "last_alert_time (alert_system_init 5 True) = Map.empty"
    by (simp add: alert_system_init_def)
  have m: "alerts (alert_system_init 5 True) ''FACE_DISAPPEARED'' = Some ''Please look at the screen''"
    by (simp add: alert_system_init_def alert_messages_def)
  from cooldown_one_emission_per_window
    [OF a b c d, of 1002 1006 1000 "''Please look at the screen''"
       "\<lparr>tts_ok = True, tmpfile_ok = True, save_ok = True, load_ok = True, play_ok = True,
         remove_ok = True\<rparr>"] a b c d e m
  show ?thesis by simp
qed

text \<open>
  C7: when \<^verbatim>\<open>pygame.mixer.init()\<close> raises in the constructor the dispatcher is built
  with \<^verbatim>\<open>audio_enabled = False\<close>, and any sequence of dispatch calls, for any types
  and at any times, leaves the dispatcher exactly as constructed (the flag stays
  \<open>False\<close>: nothing initialises the mixer again) and starts no background unit, hence no
  audio. \<^verbatim>\<open>speak_alert\<close> returns at its first test; there is no exception to raise.
\<close>

theorem degraded_dispatch_noop:
  "audio_enabled (alert_system_init cooldown False) = False \<and>
   run_dispatches (alert_system_init cooldown False) calls =
     (alert_system_init cooldown False, [])"
proof -
  have d: "\<not> audio_enabled (alert_system_init cooldown False)"
    by (simp add: alert_system_init_def)
  from run_dispatches_disabled [OF d] d show ?thesis by simp
qed

text \<open>An instance: three dispatches on a degraded dispatcher.\<close>

theorem degraded_dispatch_noop_witness:
  "run_dispatches (alert_system_init 5 False)
     [(''FACE_DISAPPEARED'', 1000, 1000), (''MULTIPLE_FACES'', 1001, 1001),
      (''FACE_DISAPPEARED'', 1010, 1010)] =
     (alert_system_init 5 False, [])"
  using degraded_dispatch_noop
    [of 5 "[(''FACE_DISAPPEARED'', 1000, 1000), (''MULTIPLE_FACES'', 1001, 1001),
            (''FACE_DISAPPEARED'', 1010, 1010)]"]
  by simp

text \<open>
  C9: for a type without an entry in the message map, a dispatch with audio enabled and
  the cooldown elapsed stores the new time under that type and starts the background
  unit; the unit finds no message and returns without synthesis, playback, warning or
  temporary file. A further dispatch of the type less than one cooldown after the stored
  time is suppressed: the window was consumed although nothing was played.
\<close>

theorem unknown_type_refreshes_cooldown:
  assumes "alerts self T = None"
    and "audio_enabled self"
    and "can_alert self t_check T"
  shows "speak_alert self t_check t_set T =
           (self\<lparr>last_alert_time := (last_alert_time self)(T \<mapsto> t_set)\<rparr>, Some T) \<and>
         play_audio (self\<lparr>last_alert_time := (last_alert_time self)(T \<mapsto> t_set)\<rparr>) T env =
           \<lparr>played = None, warned = False, temp_left = False\<rparr> \<and>
         (now - t_set < alert_cooldown self \<longrightarrow>
            speak_alert (self\<lparr>last_alert_time := (last_alert_time self)(T \<mapsto> t_set)\<rparr>) now now' T =
              (self\<lparr>last_alert_time := (last_alert_time self)(T \<mapsto> t_set)\<rparr>, None))"
proof (intro conjI impI)
  show "speak_alert self t_check t_set T =
           (self\<lparr>last_alert_time := (last_alert_time self)(T \<mapsto> t_set)\<rparr>, Some T)"
    using assms(2,3) by (rule speak_alert_emits)
  show "play_audio (self\<lparr>last_alert_time := (last_alert_time self)(T \<mapsto> t_set)\<rparr>) T env =
           \<lparr>played = None, warned = False, temp_left = False\<rparr>"
    using assms(1) by (simp add: play_audio_def)
  assume "now - t_set < alert_cooldown self"
  then have "\<not> can_alert (self\<lparr>last_alert_time := (last_alert_time self)(T \<mapsto> t_set)\<rparr>) now T"
    by (simp add: can_alert_after_emit)
  then show "speak_alert (self\<lparr>last_alert_time := (last_alert_time self)(T \<mapsto> t_set)\<rparr>) now now' T =
              (self\<lparr>last_alert_time := (last_alert_time self)(T \<mapsto> t_set)\<rparr>, None)"
    by (rule speak_alert_suppressed)
qed

text \<open>
  An instance: AUDIO\_DETECTED, which the report severity map knows and the message map
  does not.
\<close>

theorem unknown_type_refreshes_cooldown_witness:
  "alerts (alert_system_init 5 True) ''AUDIO_DETECTED'' = None \<and>
   audio_enabled (alert_system_init 5 True) \<and>
   can_alert (alert_system_init 5 True) 1000 ''AUDIO_DETECTED'' \<and>
   speak_alert (alert_system_init 5 True) 1000 1001 ''AUDIO_DETECTED'' =
     ((alert_system_init 5 True)\<lparr>last_alert_time := [''AUDIO_DETECTED'' \<mapsto> 1001]\<rparr>,
      Some ''AUDIO_DETECTED'') \<and>
   speak_alert ((alert_system_init 5 True)\<lparr>last_alert_time := [''AUDIO_DETECTED'' \<mapsto> 1001]\<rparr>)
       1003 1003 ''AUDIO_DETECTED'' =
     ((alert_system_init 5 True)\<lparr>last_alert_time := [''AUDIO_DETECTED'' \<mapsto> 1001]\<rparr>, None) \<and>
   play_audio ((alert_system_init 5 True)\<lparr>last_alert_time := [''AUDIO_DETECTED'' \<mapsto> 1001]\<rparr>)
       ''AUDIO_DETECTED''
       \<lparr>tts_ok = True, tmpfile_ok = True, save_ok = True, load_ok = True, play_ok = True,
        remove_ok = True\<rparr> =
     \<lparr>played = None, warned = False, temp_left = False\<rparr>"
proof -
  have a: "alerts (alert_system_init 5 True) ''AUDIO_DETECTED'' = None"
    by (simp add: alert_system_init_def alert_messages_def)
  have b: "audio_enabled (alert_system_init 5 True)" by (simp add: alert_system_init_def)
  have c: "can_alert (alert_system_init 5 True) 1000 ''AUDIO_DETECTED''"
    by (simp add: alert_system_init_def can_alert_def dict_get_def)
  have d: "(1003::real) - 1001 < alert_cooldown (alert_system_init 5 True)"
    by (simp add: alert_system_init_def)
  have e: "last_alert_time (alert_system_init 5 True) = Map.empty"
    by (simp add: alert_system_init_def)
  from unknown_type_refreshes_cooldown
    [OF a b c, of 1001
       "\<lparr>tts_ok = True, tmpfile_ok = True, save_ok = True, load_ok = True, play_ok = True,
         remove_ok = True\<rparr>" 1003 1003] a b c d e
  show ?thesis by simp
qed

section \<open>Properties of the report statistics\<close>

lemma stats_step_fields:
  "total (stats_step self st v) = total st"
  "average_severity (stats_step self st v) = average_severity st"
  "severity_score (stats_step self st v) =
     severity_score st + dict_get (severity_map self) (vtype v) 1"
  "timeline (stats_step self st v) = timeline st @
     [\<lparr>entry_time = vtimestamp v, entry_type = vtype v,
       entry_severity = dict_get (severity_map self) (vtype v) 1\<rparr>]"
  "by_type (stats_step self st v) t =
     (if t = vtype v then Some (dict_get (by_type st) t 0 + 1) else by_type st t)"
  by (simp_all add: stats_step_def Let_def)

lemma foldl_total: "total (foldl (stats_step self) st vs) = total st"
  by (induction vs arbitrary: st) (simp_all add: stats_step_fields)

lemma foldl_average: "average_severity (foldl (stats_step self) st vs) = average_severity st"
  by (induction vs arbitrary: st) (simp_all add: stats_step_fields)

lemma foldl_score:
  "severity_score (foldl (stats_step self) st vs) =
     severity_score st + sum_list (map (\<lambda>v. dict_get (severity_map self) (vtype v) 1) vs)"
  by (induction vs arbitrary: st) (simp_all add: stats_step_fields)

lemma foldl_timeline:
  "timeline (foldl (stats_step self) st vs) = timeline st @
     map (\<lambda>v. \<lparr>entry_time = vtimestamp v, entry_type = vtype v,
                entry_severity = dict_get (severity_map self) (vtype v) 1\<rparr>) vs"
  by (induction vs arbitrary: st) (simp_all add: stats_step_fields)

lemma foldl_by_type:
  "by_type (foldl (stats_step self) st vs) t =
     (if t \<in> vtype ` set vs
      then Some (dict_get (by_type st) t 0 + int (count_list (map vtype vs) t))
      else by_type st t)"
proof (induction vs arbitrary: st)
  case Nil
  then show ?case by simp
next
  case (Cons v vs)
  note ih = Cons.IH [of "stats_step self st v"]
  show ?case
  proof (cases "t = vtype v")
    case True
    have d: "dict_get (by_type (stats_step self st v)) t 0 = dict_get (by_type st) t 0 + 1"
      using True by (simp add: stats_step_fields dict_get_def)
    have b: "by_type (stats_step self st v) t = Some (dict_get (by_type st) t 0 + 1)"
      using True by (simp add: stats_step_fields)
    have c: "count_list (map vtype (v # vs)) t = count_list (map vtype vs) t + 1"
      using True by simp
    have m: "t \<in> vtype ` set (v # vs)" using True by simp
    show ?thesis
    proof (cases "t \<in> vtype ` set vs")
      case in_rest: True
      have "by_type (foldl (stats_step self) (stats_step self st v) vs) t =
          Some (dict_get (by_type st) t 0 + 1 + int (count_list (map vtype vs) t))"
        using ih in_rest d by simp
      then show ?thesis using m c by simp
    next
      case False
      then have z: "count_list (map vtype vs) t = 0" by (simp add: count_list_0_iff)
      have "by_type (foldl (stats_step self) (stats_step self st v) vs) t =
          Some (dict_get (by_type st) t 0 + 1)"
        using ih False b by simp
      then show ?thesis using m c z by simp
    qed
  next
    case False
    have d: "dict_get (by_type (stats_step self st v)) t 0 = dict_get (by_type st) t 0"
      using False by (simp add: stats_step_fields dict_get_def)
    have b: "by_type (stats_step self st v) t = by_type st t"
      using False by (simp add: stats_step_fields)
    have c: "count_list (map vtype (v # vs)) t = count_list (map vtype vs) t"
      using False by simp
    have m: "t \<in> vtype ` set (v # vs) \<longleftrightarrow> t \<in> vtype ` set vs" using False by auto
    have "by_type (foldl (stats_step self) (stats_step self st v) vs) t =
     (if t \<in> vtype ` set vs
      then Some (dict_get (by_type st) t 0 + int (count_list (map vtype vs) t))
      else by_type st t)"
      using ih d b by simp
    then show ?thesis using m c by simp
  qed
qed

lemma calculate_stats_fields:
  "total (calculate_stats self vs) = int (length vs)"
  "severity_score (calculate_stats self vs) =
     sum_list (map (\<lambda>v. dict_get (severity_map self) (vtype v) 1) vs)"
  "timeline (calculate_stats self vs) =
     map (\<lambda>v. \<lparr>entry_time = vtimestamp v, entry_type = vtype v,
                entry_severity = dict_get (severity_map self) (vtype v) 1\<rparr>) vs"
  "by_type (calculate_stats self vs) t =
     (if t \<in> vtype ` set vs then Some (int (count_list (map vtype vs) t)) else None)"
  "average_severity (calculate_stats self vs) =
     (if vs = [] then 0
      else real_of_int (sum_list (map (\<lambda>v. dict_get (severity_map self) (vtype v) 1) vs)) /
           real (length vs))"
  by (simp_all add: calculate_stats_def Let_def foldl_total foldl_average foldl_score
      foldl_timeline foldl_by_type dict_get_def)


text \<open>
  C5: \<^verbatim>\<open>_calculate_stats\<close> is a function of the severity map and the violation list
  alone. \<^verbatim>\<open>total\<close> is the number of violations; \<^verbatim>\<open>by_type\<close> holds exactly the
  types that occur, each with its number of occurrences; \<^verbatim>\<open>severity_score\<close> is the sum
  of the severity weights of the violations' types; \<^verbatim>\<open>average_severity\<close> is 0 for no
  violations and \<^verbatim>\<open>severity_score / total\<close> otherwise; the timeline has one entry per
  violation, in input order. For two violations of a type of weight 2 followed by one of
  a type of weight 5: total 3, counts 2 and 1, score 9, average 3.
\<close>

theorem calculate_stats_summary:
  "total (calculate_stats self vs) = int (length vs) \<and>
   by_type (calculate_stats self vs) t =
     (if t \<in> vtype ` set vs then Some (int (count_list (map vtype vs) t)) else None) \<and>
   severity_score (calculate_stats self vs) =
     sum_list (map (\<lambda>v. dict_get (severity_map self) (vtype v) 1) vs) \<and>
   average_severity (calculate_stats self vs) =
     (if total (calculate_stats self vs) = 0 then 0
      else real_of_int (severity_score (calculate_stats self vs)) /
           real_of_int (total (calculate_stats self vs))) \<and>
   map entry_time (timeline (calculate_stats self vs)) = map vtimestamp vs \<and>
   map entry_type (timeline (calculate_stats self vs)) = map vtype vs \<and>
   map entry_severity (timeline (calculate_stats self vs)) =
     map (\<lambda>v. dict_get (severity_map self) (vtype v) 1) vs \<and>
   (A \<noteq> B \<and> severity_map self A = Some 2 \<and> severity_map self B = Some 5 \<longrightarrow>
      total (calculate_stats self
        [\<lparr>vtype = A, vtimestamp = t1\<rparr>, \<lparr>vtype = A, vtimestamp = t2\<rparr>,
         \<lparr>vtype = B, vtimestamp = t3\<rparr>]) = 3 \<and>
      by_type (calculate_stats self
        [\<lparr>vtype = A, vtimestamp = t1\<rparr>, \<lparr>vtype = A, vtimestamp = t2\<rparr>,
         \<lparr>vtype = B, vtimestamp = t3\<rparr>]) = [A \<mapsto> 2, B \<mapsto> 1] \<and>
      severity_score (calculate_stats self
        [\<lparr>vtype = A, vtimestamp = t1\<rparr>, \<lparr>vtype = A, vtimestamp = t2\<rparr>,
         \<lparr>vtype = B, vtimestamp = t3\<rparr>]) = 9 \<and>
      average_severity (calculate_stats self
        [\<lparr>vtype = A, vtimestamp = t1\<rparr>, \<lparr>vtype = A, vtimestamp = t2\<rparr>,
         \<lparr>vtype = B, vtimestamp = t3\<rparr>]) = 3)"
proof -
  have general:
    "total (calculate_stats self vs) = int (length vs)"
    "by_type (calculate_stats self vs) t =
       (if t \<in> vtype ` set vs then Some (int (count_list (map vtype vs) t)) else None)"
    "severity_score (calculate_stats self vs) =
       sum_list (map (\<lambda>v. dict_get (severity_map self) (vtype v) 1) vs)"
    by (simp_all only: calculate_stats_fields)
  have avg: "average_severity (calculate_stats self vs) =
     (if total (calculate_stats self vs) = 0 then 0
      else real_of_int (severity_score (calculate_stats self vs)) /
           real_of_int (total (calculate_stats self vs)))"
    by (simp add: calculate_stats_fields)
  have tl: "map entry_time (timeline (calculate_stats self vs)) = map vtimestamp vs"
    "map entry_type (timeline (calculate_stats self vs)) = map vtype vs"
    "map entry_severity (timeline (calculate_stats self vs)) =
       map (\<lambda>v. dict_get (severity_map self) (vtype v) 1) vs"
    by (simp_all add: calculate_stats_fields comp_def)
  have ex: "A \<noteq> B \<and> severity_map self A = Some 2 \<and> severity_map self B = Some 5 \<longrightarrow>
      total (calculate_stats self
        [\<lparr>vtype = A, vtimestamp = t1\<rparr>, \<lparr>vtype = A, vtimestamp = t2\<rparr>,
         \<lparr>vtype = B, vtimestamp = t3\<rparr>]) = 3 \<and>
      by_type (calculate_stats self
        [\<lparr>vtype = A, vtimestamp = t1\<rparr>, \<lparr>vtype = A, vtimestamp = t2\<rparr>,
         \<lparr>vtype = B, vtimestamp = t3\<rparr>]) = [A \<mapsto> 2, B \<mapsto> 1] \<and>
      severity_score (calculate_stats self
        [\<lparr>vtype = A, vtimestamp = t1\<rparr>, \<lparr>vtype = A, vtimestamp = t2\<rparr>,
         \<lparr>vtype = B, vtimestamp = t3\<rparr>]) = 9 \<and>
      average_severity (calculate_stats self
        [\<lparr>vtype = A, vtimestamp = t1\<rparr>, \<lparr>vtype = A, vtimestamp = t2\<rparr>,
         \<lparr>vtype = B, vtimestamp = t3\<rparr>]) = 3"
  proof (intro impI conjI)
    assume h: "A \<noteq> B \<and> severity_map self A = Some 2 \<and> severity_map self B = Some 5"
    let ?vs = "[\<lparr>vtype = A, vtimestamp = t1\<rparr>, \<lparr>vtype = A, vtimestamp = t2\<rparr>,
         \<lparr>vtype = B, vtimestamp = t3\<rparr>]"
    show "total (calculate_stats self ?vs) = 3" by (simp add: calculate_stats_fields)
    show "by_type (calculate_stats self ?vs) = [A \<mapsto> 2, B \<mapsto> 1]"
    proof
      fix u
      show "by_type (calculate_stats self ?vs) u = [A \<mapsto> 2, B \<mapsto> 1] u"
        using h by (auto simp add: calculate_stats_fields)
    qed
    show "severity_score (calculate_stats self ?vs) = 9"
      using h by (simp add: calculate_stats_fields dict_get_def)
    show "average_severity (calculate_stats self ?vs) = 3"
      using h by (simp add: calculate_stats_fields dict_get_def)
  qed
  show ?thesis using general avg tl ex by blast
qed

text \<open>
  An instance with the generator's own severity map: two GAZE\_AWAY violations (weight 2)
  and one OBJECT\_DETECTED (weight 5).
\<close>

theorem calculate_stats_summary_witness:
  "''GAZE_AWAY'' \<noteq> ''OBJECT_DETECTED'' \<and>
   severity_map report_generator_init ''GAZE_AWAY'' = Some 2 \<and>
   severity_map report_generator_init ''OBJECT_DETECTED'' = Some 5 \<and>
   total (calculate_stats report_generator_init
     [\<lparr>vtype = ''GAZE_AWAY'', vtimestamp = ''20240101_100000_000001''\<rparr>,
      \<lparr>vtype = ''GAZE_AWAY'', vtimestamp = ''20240101_100005_000002''\<rparr>,
      \<lparr>vtype = ''OBJECT_DETECTED'', vtimestamp = ''20240101_100009_000003''\<rparr>]) = 3 \<and>
   by_type (calculate_stats report_generator_init
     [\<lparr>vtype = ''GAZE_AWAY'', vtimestamp = ''20240101_100000_000001''\<rparr>,
      \<lparr>vtype = ''GAZE_AWAY'', vtimestamp = ''20240101_100005_000002''\<rparr>,
      \<lparr>vtype = ''OBJECT_DETECTED'', vtimestamp = ''20240101_100009_000003''\<rparr>]) =
     [''GAZE_AWAY'' \<mapsto> 2, ''OBJECT_DETECTED'' \<mapsto> 1] \<and>
   severity_score (calculate_stats report_generator_init
     [\<lparr>vtype = ''GAZE_AWAY'', vtimestamp = ''20240101_100000_000001''\<rparr>,
      \<lparr>vtype = ''GAZE_AWAY'', vtimestamp = ''20240101_100005_000002''\<rparr>,
      \<lparr>vtype = ''OBJECT_DETECTED'', vtimestamp = ''20240101_100009_000003''\<rparr>]) = 9 \<and>
   average_severity (calculate_stats report_generator_init
     [\<lparr>vtype = ''GAZE_AWAY'', vtimestamp = ''20240101_100000_000001''\<rparr>,
      \<lparr>vtype = ''GAZE_AWAY'', vtimestamp = ''20240101_100005_000002''\<rparr>,
      \<lparr>vtype = ''OBJECT_DETECTED'', vtimestamp = ''20240101_100009_000003''\<rparr>]) = 3"
proof -
  have a: "''GAZE_AWAY'' \<noteq> ''OBJECT_DETECTED''" by simp
  have b: "severity_map report_generator_init ''GAZE_AWAY'' = Some 2"
    by (simp add: report_generator_init_def)
  have c: "severity_map report_generator_init ''OBJECT_DETECTED'' = Some 5"
    by (simp add: report_generator_init_def)
  from calculate_stats_summary
    [of report_generator_init "[]" "''GAZE_AWAY''" "''GAZE_AWAY''" "''OBJECT_DETECTED''"
        "''20240101_100000_000001''" "''20240101_100005_000002''" "''20240101_100009_000003''"]
    a b c
  show ?thesis by blast
qed

text \<open>
  C10: a violation whose type has no entry in the severity map is kept. Compared with
  the same list without it, \<^verbatim>\<open>total\<close> and the count of its type are one higher and
  \<^verbatim>\<open>severity_score\<close> is higher by the default weight 1; its timeline entry stands at
  its position with severity 1; \<^verbatim>\<open>average_severity\<close> is computed from the raised
  score and total.
\<close>

theorem absent_type_default_severity:
  assumes "severity_map self (vtype v) = None"
  shows "total (calculate_stats self (xs @ v # ys)) = total (calculate_stats self (xs @ ys)) + 1 \<and>
     by_type (calculate_stats self (xs @ v # ys)) (vtype v) =
       Some (dict_get (by_type (calculate_stats self (xs @ ys))) (vtype v) 0 + 1) \<and>
     severity_score (calculate_stats self (xs @ v # ys)) =
       severity_score (calculate_stats self (xs @ ys)) + 1 \<and>
     length (timeline (calculate_stats self (xs @ v # ys))) = length xs + 1 + length ys \<and>
     timeline (calculate_stats self (xs @ v # ys)) ! length xs =
       \<lparr>entry_time = vtimestamp v, entry_type = vtype v, entry_severity = 1\<rparr> \<and>
     average_severity (calculate_stats self (xs @ v # ys)) =
       real_of_int (severity_score (calculate_stats self (xs @ ys)) + 1) /
       real_of_int (total (calculate_stats self (xs @ ys)) + 1)"
proof -
  have sev: "dict_get (severity_map self) (vtype v) 1 = 1"
    using assms by (simp add: dict_get_def)
  have t: "total (calculate_stats self (xs @ v # ys)) = total (calculate_stats self (xs @ ys)) + 1"
    by (simp add: calculate_stats_fields)
  have b: "by_type (calculate_stats self (xs @ v # ys)) (vtype v) =
       Some (dict_get (by_type (calculate_stats self (xs @ ys))) (vtype v) 0 + 1)"
  proof (cases "vtype v \<in> vtype ` set (xs @ ys)")
    case True
    then show ?thesis by (simp add: calculate_stats_fields dict_get_def)
  next
    case False
    then have "vtype v \<notin> set (map vtype xs)" "vtype v \<notin> set (map vtype ys)" by auto
    then have z: "count_list (map vtype xs) (vtype v) = 0" "count_list (map vtype ys) (vtype v) = 0"
      by (simp_all only: count_list_0_iff not_False_eq_True)
    show ?thesis using False z by (simp add: calculate_stats_fields dict_get_def)
  qed
  have s: "severity_score (calculate_stats self (xs @ v # ys)) =
       severity_score (calculate_stats self (xs @ ys)) + 1"
    using sev by (simp add: calculate_stats_fields)
  have l: "length (timeline (calculate_stats self (xs @ v # ys))) = length xs + 1 + length ys"
    by (simp add: calculate_stats_fields)
  have e: "timeline (calculate_stats self (xs @ v # ys)) ! length xs =
       \<lparr>entry_time = vtimestamp v, entry_type = vtype v, entry_severity = 1\<rparr>"
    using sev by (simp add: calculate_stats_fields nth_append)
  have a: "average_severity (calculate_stats self (xs @ v # ys)) =
       real_of_int (severity_score (calculate_stats self (xs @ ys)) + 1) /
       real_of_int (total (calculate_stats self (xs @ ys)) + 1)"
    using sev by (simp add: calculate_stats_fields add.commute add.left_commute)
  show ?thesis using t b s l e a by blast
qed

text \<open>
  An instance with the generator's own severity map: a TAB\_SWITCH violation between a
  GAZE\_AWAY and an OBJECT\_DETECTED one.
\<close>

theorem absent_type_default_severity_witness:
  "severity_map report_generator_init ''TAB_SWITCH'' = None \<and>
   total (calculate_stats report_generator_init
     [\<lparr>vtype = ''GAZE_AWAY'', vtimestamp = ''20240101_100000_000001''\<rparr>,
      \<lparr>vtype = ''TAB_SWITCH'', vtimestamp = ''20240101_100005_000002''\<rparr>,
      \<lparr>vtype = ''OBJECT_DETECTED'', vtimestamp = ''20240101_100009_000003''\<rparr>]) = 3 \<and>
   by_type (calculate_stats report_generator_init
     [\<lparr>vtype = ''GAZE_AWAY'', vtimestamp = ''20240101_100000_000001''\<rparr>,
      \<lparr>vtype = ''TAB_SWITCH'', vtimestamp = ''20240101_100005_000002''\<rparr>,
      \<lparr>vtype = ''OBJECT_DETECTED'', vtimestamp = ''20240101_100009_000003''\<rparr>]) ''TAB_SWITCH'' =
     Some 1 \<and>
   severity_score (calculate_stats report_generator_init
     [\<lparr>vtype = ''GAZE_AWAY'', vtimestamp = ''20240101_100000_000001''\<rparr>,
      \<lparr>vtype = ''TAB_SWITCH'', vtimestamp = ''20240101_100005_000002''\<rparr>,
      \<lparr>vtype = ''OBJECT_DETECTED'', vtimestamp = ''20240101_100009_000003''\<rparr>]) = 8 \<and>
   timeline (calculate_stats report_generator_init
     [\<lparr>vtype = ''GAZE_AWAY'', vtimestamp = ''20240101_100000_000001''\<rparr>,
      \<lparr>vtype = ''TAB_SWITCH'', vtimestamp = ''20240101_100005_000002''\<rparr>,
      \<lparr>vtype = ''OBJECT_DETECTED'', vtimestamp = ''20240101_100009_000003''\<rparr>]) ! 1 =
     \<lparr>entry_time = ''20240101_100005_000002'', entry_type = ''TAB_SWITCH'', entry_severity = 1\<rparr> \<and>
   average_severity (calculate_stats report_generator_init
     [\<lparr>vtype = ''GAZE_AWAY'', vtimestamp = ''20240101_100000_000001''\<rparr>,
      \<lparr>vtype = ''TAB_SWITCH'', vtimestamp = ''20240101_100005_000002''\<rparr>,
      \<lparr>vtype = ''OBJECT_DETECTED'', vtimestamp = ''20240101_100009_000003''\<rparr>]) = 8 / 3"
proof -
  have n: "severity_map report_generator_init
      (vtype \<lparr>vtype = ''TAB_SWITCH'', vtimestamp = ''20240101_100005_000002''\<rparr>) = None"
    by (simp add: report_generator_init_def)
  have rest: "total (calculate_stats report_generator_init
       [\<lparr>vtype = ''GAZE_AWAY'', vtimestamp = ''20240101_100000_000001''\<rparr>,
        \<lparr>vtype = ''OBJECT_DETECTED'', vtimestamp = ''20240101_100009_000003''\<rparr>]) = 2"
    "severity_score (calculate_stats report_generator_init
       [\<lparr>vtype = ''GAZE_AWAY'', vtimestamp = ''20240101_100000_000001''\<rparr>,
        \<lparr>vtype = ''OBJECT_DETECTED'', vtimestamp = ''20240101_100009_000003''\<rparr>]) = 7"
    "by_type (calculate_stats report_generator_init
       [\<lparr>vtype = ''GAZE_AWAY'', vtimestamp = ''20240101_100000_000001''\<rparr>,
        \<lparr>vtype = ''OBJECT_DETECTED'', vtimestamp = ''20240101_100009_000003''\<rparr>]) ''TAB_SWITCH'' =
       None"
    by (simp_all add: calculate_stats_fields report_generator_init_def dict_get_def)
  from absent_type_default_severity
    [OF n, of "[\<lparr>vtype = ''GAZE_AWAY'', vtimestamp = ''20240101_100000_000001''\<rparr>]"
       "[\<lparr>vtype = ''OBJECT_DETECTED'', vtimestamp = ''20240101_100009_000003''\<rparr>]"]
    n rest
  show ?thesis by (simp add: dict_get_def)
qed

end
